theory Spec2Isabelle
  imports Main
begin

section \<open>The script's world: exceptions, XML results, external calls\<close>

text \<open>
  \<^verbatim>\<open>pan_ssh_ciphers.py\<close> drives a firewall through the \<^verbatim>\<open>pandevice\<close> client library.
  The library and the device are outside the script, so they are a parameter of the
  model: a \<open>device\<close> answers each call either with a value or with an exception, and
  its answer may depend on every call made before (the trace). Every function of the
  script takes the trace and returns its result (\<open>Inl\<close> an exception, \<open>Inr\<close> a value)
  together with the extended trace. \<^verbatim>\<open>print\<close> writes to the console only and is
  left out of the trace; where the argument of a \<^verbatim>\<open>print\<close> can raise, the raise is
  modelled.
\<close>

datatype exn = PanURLError | PanDeviceError | KeyError | NameError | AttributeError | SystemExit

text \<open>An \<^verbatim>\<open>xml.etree.ElementTree.Element\<close>: tag, attributes, text, child elements.\<close>

datatype xml =
  Element (tag: string) (attrib: "(string \<times> string) list") (elem_text: "string option")
    (children: "xml list")

datatype pyval = PyNone | PyStr string | PyList "string list"

text \<open>
  The calls the script makes on the outside world, with their arguments:
  \<^verbatim>\<open>firewall.Firewall(hostname, api_key)\<close>, \<^verbatim>\<open>fw.xapi.get(xpath)\<close>,
  \<^verbatim>\<open>fw.xapi.set(xpath, element)\<close>, \<^verbatim>\<open>fw.commit(sync, cmd)\<close>,
  \<^verbatim>\<open>fw.op(cmd, cmd_xml)\<close> and \<^verbatim>\<open>time.sleep(seconds)\<close>.
\<close>

datatype 'fw call =
    Firewall string string
  | XapiGet 'fw string
  | XapiSet 'fw string string
  | Commit 'fw bool string
  | Op 'fw string bool
  | Sleep nat

type_synonym 'fw trace = "'fw call list"

record 'fw device =
  Firewall_new :: "'fw trace \<Rightarrow> string \<Rightarrow> string \<Rightarrow> exn + 'fw"
  xapi_get :: "'fw trace \<Rightarrow> 'fw \<Rightarrow> string \<Rightarrow> exn + xml"
  xapi_set :: "'fw trace \<Rightarrow> 'fw \<Rightarrow> string \<Rightarrow> string \<Rightarrow> exn + xml"
  fw_commit :: "'fw trace \<Rightarrow> 'fw \<Rightarrow> bool \<Rightarrow> string \<Rightarrow> exn + (string \<times> pyval) list"
  fw_op :: "'fw trace \<Rightarrow> 'fw \<Rightarrow> string \<Rightarrow> bool \<Rightarrow> exn + xml"

section \<open>Strings built by the script\<close>

definition base_xpath :: "string \<Rightarrow> string" where
  "base_xpath service =
     ''/config/devices/entry[@name='localhost.localdomain']/deviceconfig/system/ssh/ciphers/''
       @ service"

definition entry_element :: "string \<Rightarrow> string" where
  "entry_element cipher = ''<'' @ cipher @ ''/>''"

definition commit_command :: string where
  "commit_command = ''<commit><description>SSH Ciphers Commit</description></commit>''"

definition restart_service_command :: "string \<Rightarrow> string" where
  "restart_service_command service =
     ''<set><ssh><service-restart><'' @ service @ ''></'' @ service
       @ ''></service-restart></ssh></set>''"

definition restart_system_command :: string where
  "restart_system_command = ''<request><restart><system></system></restart></request>''"

section \<open>ElementPath queries used by the script\<close>

text \<open>
  A path step \<^verbatim>\<open>/name\<close> selects, for each element of the current selection in order,
  its children with that tag; a trailing \<^verbatim>\<open>/\<close> is read by ElementTree as \<^verbatim>\<open>/*\<close>, all
  children. \<^verbatim>\<open>findall('./result/{}/'.format(service))\<close> is modelled for a service that is
  a plain tag name, as \<^verbatim>\<open>'mgmt'\<close> and \<^verbatim>\<open>'ha'\<close> are. \<^verbatim>\<open>findall('.')\<close> is the one-element
  list of the element itself, and \<^verbatim>\<open>find\<close> is the first element of the selection, or
  \<^verbatim>\<open>None\<close>.
\<close>

definition child_elements :: "string \<Rightarrow> xml list \<Rightarrow> xml list" where
  "child_elements t elems = concat (map (\<lambda>elem. filter (\<lambda>e. tag e = t) (children elem)) elems)"

definition all_children :: "xml list \<Rightarrow> xml list" where
  "all_children elems = concat (map children elems)"

definition findall_result_service :: "string \<Rightarrow> xml \<Rightarrow> xml list" where
  "findall_result_service service results =
     all_children (child_elements service (child_elements ''result'' [results]))"

definition find_result_member :: "xml \<Rightarrow> xml option" where
  "find_result_member item =
     (case child_elements ''member'' (child_elements ''result'' [item]) of
        [] \<Rightarrow> None
      | member # _ \<Rightarrow> Some member)"

section \<open>The functions of the script\<close>

text \<open>
  \<^verbatim>\<open>get_fw_connection\<close>: \<^verbatim>\<open>config.paloalto\<close> is a dictionary of a module that is not
  part of the script; it is the parameter \<open>paloalto\<close>. A missing key raises KeyError.
\<close>

definition get_fw_connection ::
  "'fw device \<Rightarrow> (string \<rightharpoonup> string) \<Rightarrow> 'fw trace \<Rightarrow> (exn + 'fw) \<times> 'fw trace" where
  "get_fw_connection dev paloalto tr =
     (case paloalto ''key'' of
        None \<Rightarrow> (Inl KeyError, tr)
      | Some key \<Rightarrow>
          (case paloalto ''firewall_ip'' of
             None \<Rightarrow> (Inl KeyError, tr)
           | Some fw_ip \<Rightarrow> (Firewall_new dev tr fw_ip key, tr @ [Firewall fw_ip key])))"

text \<open>The loop of \<^verbatim>\<open>check_ciphers\<close>: append the tag of each item, in order.\<close>

fun append_tags :: "xml list \<Rightarrow> string list \<Rightarrow> string list" where
  "append_tags [] set_ciphers_list = set_ciphers_list"
| "append_tags (item # xml_list) set_ciphers_list =
     append_tags xml_list (set_ciphers_list @ [tag item])"

definition check_ciphers ::
  "'fw device \<Rightarrow> 'fw \<Rightarrow> string \<Rightarrow> 'fw trace \<Rightarrow> (exn + string list) \<times> 'fw trace" where
  "check_ciphers dev fw service tr =
     (case xapi_get dev tr fw (base_xpath service) of
        Inl e \<Rightarrow> (Inl e, tr @ [XapiGet fw (base_xpath service)])
      | Inr results \<Rightarrow>
          (Inr (append_tags (findall_result_service service results) []),
           tr @ [XapiGet fw (base_xpath service)]))"

text \<open>
  \<^verbatim>\<open>compare_ciphers\<close> appends the status to \<open>results_list\<close> and returns the list and the
  status.
\<close>

definition compare_ciphers ::
  "string list \<Rightarrow> string \<Rightarrow> string list \<Rightarrow> string list \<Rightarrow> string list \<times> string" where
  "compare_ciphers cipher_list service set_ciphers_list results_list =
     (if set cipher_list \<subseteq> set set_ciphers_list
      then (results_list @ [''ciphers_set''], ''ciphers_set'')
      else (results_list @ [''ciphers_not_set''], ''ciphers_not_set''))"

text \<open>
  \<^verbatim>\<open>set_ciphers\<close>: one \<^verbatim>\<open>fw.xapi.set\<close> per cipher of the list, in order. The inner loop
  over \<^verbatim>\<open>results.findall('.')\<close> only prints the status attribute
  (\<^verbatim>\<open>dict.get\<close> does not raise).
\<close>

fun set_ciphers ::
  "'fw device \<Rightarrow> 'fw \<Rightarrow> string \<Rightarrow> string list \<Rightarrow> 'fw trace \<Rightarrow> (exn + unit) \<times> 'fw trace" where
  "set_ciphers dev fw service [] tr = (Inr (), tr)"
| "set_ciphers dev fw service (cipher # cipher_list) tr =
     (case xapi_set dev tr fw (base_xpath service) (entry_element cipher) of
        Inl e \<Rightarrow> (Inl e, tr @ [XapiSet fw (base_xpath service) (entry_element cipher)])
      | Inr results \<Rightarrow>
          set_ciphers dev fw service cipher_list
            (tr @ [XapiSet fw (base_xpath service) (entry_element cipher)]))"

text \<open>\<^verbatim>\<open>commit_config\<close>: the returned dictionary is only printed.\<close>

definition commit_config :: "'fw device \<Rightarrow> 'fw \<Rightarrow> 'fw trace \<Rightarrow> (exn + unit) \<times> 'fw trace" where
  "commit_config dev fw tr =
     (case fw_commit dev tr fw True commit_command of
        Inl e \<Rightarrow> (Inl e, tr @ [Commit fw True commit_command])
      | Inr results \<Rightarrow> (Inr (), tr @ [Commit fw True commit_command]))"

text \<open>
  \<^verbatim>\<open>restart_service\<close>: the loop runs once, on the result itself;
  \<^verbatim>\<open>item.find('./result/member').text\<close> raises AttributeError when there is no such
  element.
\<close>

definition restart_service ::
  "'fw device \<Rightarrow> 'fw \<Rightarrow> string \<Rightarrow> 'fw trace \<Rightarrow> (exn + unit) \<times> 'fw trace" where
  "restart_service dev fw service tr =
     (case fw_op dev tr fw (restart_service_command service) False of
        Inl e \<Rightarrow> (Inl e, tr @ [Op fw (restart_service_command service) False])
      | Inr results \<Rightarrow>
          (case find_result_member results of
             None \<Rightarrow> (Inl AttributeError, tr @ [Op fw (restart_service_command service) False])
           | Some member \<Rightarrow> (Inr (), tr @ [Op fw (restart_service_command service) False])))"

text \<open>
  \<^verbatim>\<open>restart_system\<close>: the bare \<^verbatim>\<open>except\<close> catches whatever \<^verbatim>\<open>fw.op\<close> raises and calls
  \<^verbatim>\<open>sys.exit()\<close>, which raises SystemExit.
\<close>

definition restart_system :: "'fw device \<Rightarrow> 'fw \<Rightarrow> 'fw trace \<Rightarrow> (exn + unit) \<times> 'fw trace" where
  "restart_system dev fw tr =
     (case fw_op dev tr fw restart_system_command False of
        Inl e \<Rightarrow> (Inl SystemExit, tr @ [Op fw restart_system_command False])
      | Inr results \<Rightarrow> (Inr (), tr @ [Op fw restart_system_command False]))"

text \<open>
  The names bound in the module's global namespace: by the import statements
  (\<^verbatim>\<open>import sys\<close>, \<^verbatim>\<open>import time\<close>, \<^verbatim>\<open>import config\<close>, \<^verbatim>\<open>from pandevice import base\<close>,
  \<^verbatim>\<open>from pandevice import firewall\<close>, \<^verbatim>\<open>from pandevice import errors\<close>) and by the
  \<^verbatim>\<open>def\<close> statements. A \<^verbatim>\<open>from pandevice import errors\<close> binds \<^verbatim>\<open>errors\<close>, not
  \<^verbatim>\<open>pandevice\<close>. Looking up a name that is not bound raises NameError (the one name
  looked up through \<open>load_global\<close> below is not a builtin either).
\<close>

definition module_globals :: "string list" where
  "module_globals =
     [''sys'', ''time'', ''config'', ''base'', ''firewall'', ''errors'',
      ''get_fw_connection'', ''check_ciphers'', ''compare_ciphers'', ''set_ciphers'',
      ''commit_config'', ''restart_service'', ''restart_system'', ''check_device_up'',
      ''main'']"

definition load_global :: "string \<Rightarrow> exn + unit" where
  "load_global name = (if name \<in> set module_globals then Inr () else Inl NameError)"

text \<open>
  \<^verbatim>\<open>check_device_up\<close>: the \<^verbatim>\<open>while status == 'down'\<close> loop. When
  \<^verbatim>\<open>get_fw_connection()\<close> raises, the clause
  \<^verbatim>\<open>except pandevice.errors.PanURLError:\<close> first evaluates its expression, which starts
  with the global name \<^verbatim>\<open>pandevice\<close>; only if that succeeds is the exception matched,
  and then the loop sleeps and goes round again. The loop has no bound, so it is a
  partial function: \<open>None\<close> is a loop that never ends.
\<close>

partial_function (option) check_device_up_loop ::
  "'fw device \<Rightarrow> (string \<rightharpoonup> string) \<Rightarrow> 'fw trace \<Rightarrow> ((exn + 'fw) \<times> 'fw trace) option" where
  "check_device_up_loop dev paloalto tr =
     (case get_fw_connection dev paloalto tr of
        (Inl e, tr1) \<Rightarrow>
          (case load_global ''pandevice'' of
             Inl name_error \<Rightarrow> Some (Inl name_error, tr1)
           | Inr _ \<Rightarrow>
               if e = PanURLError
               then check_device_up_loop dev paloalto (tr1 @ [Sleep 60])
               else Some (Inl e, tr1))
      | (Inr fw, tr1) \<Rightarrow> Some (Inr fw, tr1))"

declare check_device_up_loop.simps [code]

definition check_device_up ::
  "'fw device \<Rightarrow> (string \<rightharpoonup> string) \<Rightarrow> 'fw trace \<Rightarrow> ((exn + 'fw) \<times> 'fw trace) option" where
  "check_device_up dev paloalto tr = check_device_up_loop dev paloalto (tr @ [Sleep 60])"

text \<open>\<^verbatim>\<open>main\<close>: the two lists, the body of the \<^verbatim>\<open>for\<close> loop, the loop, the final test.\<close>

definition service_list :: "string list" where
  "service_list = [''mgmt'', ''ha'']"

definition cipher_list :: "string list" where
  "cipher_list =
     [''aes128-cbc'', ''aes192-cbc'', ''aes256-cbc'', ''aes128-ctr'',
      ''aes192-ctr'', ''aes256-ctr'', ''aes128-gcm'', ''aes256-gcm'']"

text \<open>The branch \<^verbatim>\<open>if status == 'ciphers_not_set'\<close>: set, commit, restart, wait.\<close>

definition remediate ::
  "'fw device \<Rightarrow> (string \<rightharpoonup> string) \<Rightarrow> 'fw \<Rightarrow> string \<Rightarrow> string list \<Rightarrow> 'fw trace
     \<Rightarrow> ((exn + 'fw) \<times> 'fw trace) option" where
  "remediate dev paloalto fw service ciphers tr =
     (case set_ciphers dev fw service ciphers tr of
        (Inl e, tr1) \<Rightarrow> Some (Inl e, tr1)
      | (Inr _, tr1) \<Rightarrow>
          (case commit_config dev fw tr1 of
             (Inl e, tr2) \<Rightarrow> Some (Inl e, tr2)
           | (Inr _, tr2) \<Rightarrow>
               (case restart_service dev fw service tr2 of
                  (Inl e, tr3) \<Rightarrow> Some (Inl e, tr3)
                | (Inr _, tr3) \<Rightarrow> check_device_up dev paloalto tr3)))"

text \<open>One round of the \<^verbatim>\<open>for\<close> loop: it updates \<open>results_list\<close> and \<open>fw\<close>.\<close>

definition process_service ::
  "'fw device \<Rightarrow> (string \<rightharpoonup> string) \<Rightarrow> string list \<Rightarrow> string \<Rightarrow> string list \<Rightarrow> 'fw
     \<Rightarrow> 'fw trace \<Rightarrow> ((exn + string list \<times> 'fw) \<times> 'fw trace) option" where
  "process_service dev paloalto ciphers service results_list fw tr =
     (case check_ciphers dev fw service tr of
        (Inl e, tr1) \<Rightarrow> Some (Inl e, tr1)
      | (Inr set_ciphers_list, tr1) \<Rightarrow>
          (case compare_ciphers ciphers service set_ciphers_list results_list of
             (results_list', status) \<Rightarrow>
               if status = ''ciphers_not_set''
               then (case remediate dev paloalto fw service ciphers tr1 of
                       None \<Rightarrow> None
                     | Some (Inl e, tr2) \<Rightarrow> Some (Inl e, tr2)
                     | Some (Inr fw', tr2) \<Rightarrow> Some (Inr (results_list', fw'), tr2))
               else Some (Inr (results_list', fw), tr1)))"

fun service_loop ::
  "'fw device \<Rightarrow> (string \<rightharpoonup> string) \<Rightarrow> string list \<Rightarrow> string list \<Rightarrow> string list \<Rightarrow> 'fw
     \<Rightarrow> 'fw trace \<Rightarrow> ((exn + string list \<times> 'fw) \<times> 'fw trace) option" where
  "service_loop dev paloalto ciphers [] results_list fw tr = Some (Inr (results_list, fw), tr)"
| "service_loop dev paloalto ciphers (service # services) results_list fw tr =
     (case process_service dev paloalto ciphers service results_list fw tr of
        None \<Rightarrow> None
      | Some (Inl e, tr1) \<Rightarrow> Some (Inl e, tr1)
      | Some (Inr (results_list', fw'), tr1) \<Rightarrow>
          service_loop dev paloalto ciphers services results_list' fw' tr1)"

text \<open>
  Lines 247 to 263 of \<^verbatim>\<open>main\<close>: connect, then the loop over the services, from an
  empty trace and an empty \<open>results_list\<close>.
\<close>

definition main_loop ::
  "'fw device \<Rightarrow> (string \<rightharpoonup> string) \<Rightarrow> ((exn + string list \<times> 'fw) \<times> 'fw trace) option" where
  "main_loop dev paloalto =
     (case get_fw_connection dev paloalto [] of
        (Inl e, tr) \<Rightarrow> Some (Inl e, tr)
      | (Inr fw, tr) \<Rightarrow> service_loop dev paloalto cipher_list service_list [] fw tr)"

text \<open>
  Lines 265 to 268: \<^verbatim>\<open>list(set(results_list))\<close> keeps one copy of each status (in an
  order Python does not fix; only membership is tested), and the system restart follows
  when \<^verbatim>\<open>'ciphers_not_set'\<close> is among them.
\<close>

definition main :: "'fw device \<Rightarrow> (string \<rightharpoonup> string) \<Rightarrow> ((exn + unit) \<times> 'fw trace) option" where
  "main dev paloalto =
     (case main_loop dev paloalto of
        None \<Rightarrow> None
      | Some (Inl e, tr) \<Rightarrow> Some (Inl e, tr)
      | Some (Inr (results_list, fw), tr) \<Rightarrow>
          (let results_list = remdups results_list
           in if ''ciphers_not_set'' \<in> set results_list
              then Some (restart_system dev fw tr)
              else Some (Inr (), tr)))"

section \<open>Observations on traces\<close>

definition is_config_write :: "'fw call \<Rightarrow> bool" where
  "is_config_write c = (case c of XapiSet _ _ _ \<Rightarrow> True | _ \<Rightarrow> False)"

definition is_commit :: "'fw call \<Rightarrow> bool" where
  "is_commit c = (case c of Commit _ _ _ \<Rightarrow> True | _ \<Rightarrow> False)"

definition is_system_restart :: "'fw call \<Rightarrow> bool" where
  "is_system_restart c = (case c of Op _ cmd _ \<Rightarrow> cmd = restart_system_command | _ \<Rightarrow> False)"

text \<open>The script issues two kinds of \<^verbatim>\<open>fw.op\<close>; one that is not the system restart is a
  service restart.\<close>

definition is_service_restart :: "'fw call \<Rightarrow> bool" where
  "is_service_restart c = (case c of Op _ cmd _ \<Rightarrow> cmd \<noteq> restart_system_command | _ \<Rightarrow> False)"

definition is_connection_attempt :: "'fw call \<Rightarrow> bool" where
  "is_connection_attempt c = (case c of Firewall _ _ \<Rightarrow> True | _ \<Rightarrow> False)"

text \<open>
  The exception raised at a call, given the calls made before it: the one the library
  raises, or, at a service restart, the AttributeError of reading the text of a
  \<^verbatim>\<open>./result/member\<close> that is not there.
\<close>

definition raised_at :: "'fw device \<Rightarrow> 'fw trace \<Rightarrow> 'fw call \<Rightarrow> exn option" where
  "raised_at dev tr c =
     (case c of
        Firewall fw_ip key \<Rightarrow>
          (case Firewall_new dev tr fw_ip key of Inl e \<Rightarrow> Some e | Inr _ \<Rightarrow> None)
      | XapiGet fw xpath \<Rightarrow>
          (case xapi_get dev tr fw xpath of Inl e \<Rightarrow> Some e | Inr _ \<Rightarrow> None)
      | XapiSet fw xpath element \<Rightarrow>
          (case xapi_set dev tr fw xpath element of Inl e \<Rightarrow> Some e | Inr _ \<Rightarrow> None)
      | Commit fw sync cmd \<Rightarrow>
          (case fw_commit dev tr fw sync cmd of Inl e \<Rightarrow> Some e | Inr _ \<Rightarrow> None)
      | Op fw cmd cmd_xml \<Rightarrow>
          (case fw_op dev tr fw cmd cmd_xml of
             Inl e \<Rightarrow> Some e
           | Inr results \<Rightarrow>
               if cmd \<noteq> restart_system_command \<and> find_result_member results = None
               then Some AttributeError else None)
      | Sleep n \<Rightarrow> None)"

text \<open>
  What a run ends with when call \<open>c\<close> raises \<open>e\<close>: the exception itself, except at
  the system restart (SystemExit) and at a connection attempt (inside
  \<open>check_device_up\<close> the NameError of the handler takes its place).
\<close>

definition surfaces :: "'fw call \<Rightarrow> exn \<Rightarrow> exn \<Rightarrow> bool" where
  "surfaces c e x =
     (case c of
        Firewall _ _ \<Rightarrow> x = e \<or> x = NameError
      | Op _ cmd _ \<Rightarrow> x = (if cmd = restart_system_command then SystemExit else e)
      | _ \<Rightarrow> x = e)"

text \<open>
  \<open>stops_at_raise dev tr ext r\<close>: in the calls \<open>ext\<close> made after \<open>tr\<close>, a call that
  raises is the last one, and the result \<open>r\<close> is the exception that surfaces from it.
  \<open>runs dev Q tr r tr'\<close>: a function started at \<open>tr\<close> ended at \<open>tr'\<close> with result
  \<open>r\<close>, having made calls that all satisfy \<open>Q\<close> and that stop at a raise.
\<close>

definition stops_at_raise :: "'fw device \<Rightarrow> 'fw trace \<Rightarrow> 'fw trace \<Rightarrow> exn + 'a \<Rightarrow> bool" where
  "stops_at_raise dev tr ext r =
     (\<forall>before c after e. ext = before @ c # after \<longrightarrow> raised_at dev (tr @ before) c = Some e \<longrightarrow>
        after = [] \<and> (\<exists>x. r = Inl x \<and> surfaces c e x))"

definition runs :: "'fw device \<Rightarrow> ('fw call \<Rightarrow> bool) \<Rightarrow> 'fw trace \<Rightarrow> exn + 'a \<Rightarrow> 'fw trace \<Rightarrow> bool" where
  "runs dev Q tr r tr' = (\<exists>ext. tr' = tr @ ext \<and> stops_at_raise dev tr ext r \<and> (\<forall>c\<in>set ext. Q c))"

text \<open>The add-cipher write of \<open>set_ciphers\<close> for one cipher.\<close>

definition add_cipher :: "'fw \<Rightarrow> string \<Rightarrow> string \<Rightarrow> 'fw call" where
  "add_cipher fw service cipher = XapiSet fw (base_xpath service) (entry_element cipher)"

section \<open>Example devices\<close>

definition example_paloalto :: "string \<rightharpoonup> string" where
  "example_paloalto = [''key'' \<mapsto> ''secret'', ''firewall_ip'' \<mapsto> ''192.0.2.1'']"

definition config_response :: "string \<Rightarrow> string list \<Rightarrow> xml" where
  "config_response service ciphers =
     Element ''response'' [(''status'', ''success'')] None
       [Element ''result'' [] None
          [Element service [] None (map (\<lambda>cipher. Element cipher [] None []) ciphers)]]"

definition set_response :: xml where
  "set_response =
     Element ''response'' [(''status'', ''success'')] None
       [Element ''msg'' [] (Some ''command succeeded'') []]"

definition restart_response :: xml where
  "restart_response =
     Element ''response'' [(''status'', ''success'')] None
       [Element ''result'' [] None [Element ''member'' [] (Some ''restarting'') []]]"

text \<open>
  A device that accepts every call; its configuration reads answer with fixed cipher
  lists for the two services.
\<close>

definition simple_device :: "string list \<Rightarrow> string list \<Rightarrow> nat device" where
  "simple_device mgmt_ciphers ha_ciphers =
     \<lparr> Firewall_new = (\<lambda>tr fw_ip key. Inr 0),
       xapi_get = (\<lambda>tr fw xpath.
          if xpath = base_xpath ''mgmt'' then Inr (config_response ''mgmt'' mgmt_ciphers)
          else Inr (config_response ''ha'' ha_ciphers)),
       xapi_set = (\<lambda>tr fw xpath element. Inr set_response),
       fw_commit = (\<lambda>tr fw sync cmd. Inr [(''messages'', PyStr ''ok'')]),
       fw_op = (\<lambda>tr fw cmd cmd_xml. Inr restart_response) \<rparr>"

text \<open>A device that refuses the first \<open>n\<close> connections and accepts the next.\<close>

definition recovering_device :: "nat \<Rightarrow> nat device" where
  "recovering_device n =
     (simple_device [] [])
       \<lparr> Firewall_new := (\<lambda>tr fw_ip key.
            if length (filter is_connection_attempt tr) < n then Inl PanURLError else Inr 0) \<rparr>"

text \<open>A device whose configuration read answers with an empty response element.\<close>

definition empty_response_device :: "nat device" where
  "empty_response_device =
     (simple_device [] [])
       \<lparr> xapi_get := (\<lambda>tr fw xpath. Inr (Element ''response'' [] None [])) \<rparr>"

text \<open>A device that rejects every configuration write.\<close>

definition read_only_device :: "nat device" where
  "read_only_device =
     (simple_device [] cipher_list) \<lparr> xapi_set := (\<lambda>tr fw xpath element. Inl PanDeviceError) \<rparr>"

text \<open>A device whose configuration read raises.\<close>

definition unreadable_device :: "nat device" where
  "unreadable_device =
     (simple_device [] []) \<lparr> xapi_get := (\<lambda>tr fw xpath. Inl PanDeviceError) \<rparr>"


text \<open>
  The calls of a run against a device that accepts everything and has no cipher
  configured for \<^verbatim>\<open>mgmt\<close> and all of them for \<^verbatim>\<open>ha\<close>, up to the end of the loop.
\<close>

definition mgmt_remediation_trace :: "nat trace" where
  "mgmt_remediation_trace =
     [Firewall ''192.0.2.1'' ''secret'', XapiGet 0 (base_xpath ''mgmt'')]
       @ map (add_cipher 0 ''mgmt'') cipher_list
       @ [Commit 0 True commit_command, Op 0 (restart_service_command ''mgmt'') False,
          Sleep 60, Firewall ''192.0.2.1'' ''secret'', XapiGet 0 (base_xpath ''ha'')]"

section \<open>Basic facts about the functions\<close>

lemma append_tags_map: "append_tags xml_list acc = acc @ map tag xml_list"
  by (induction xml_list arbitrary: acc) simp_all

lemma check_ciphers_read:
  "check_ciphers dev fw service tr =
     (case xapi_get dev tr fw (base_xpath service) of
        Inl e \<Rightarrow> Inl e
      | Inr results \<Rightarrow> Inr (map tag (findall_result_service service results)),
      tr @ [XapiGet fw (base_xpath service)])"
  by (simp add: check_ciphers_def append_tags_map split: sum.splits)

lemma compare_ciphers_eq:
  "compare_ciphers D service C results_list =
     (results_list @ [if set D \<subseteq> set C then ''ciphers_set'' else ''ciphers_not_set''],
      if set D \<subseteq> set C then ''ciphers_set'' else ''ciphers_not_set'')"
  by (simp add: compare_ciphers_def)

lemma service_restart_not_system: "restart_service_command service \<noteq> restart_system_command"
  by (simp add: restart_service_command_def restart_system_command_def)

lemma base_xpath_inject: "(base_xpath a = base_xpath b) = (a = b)"
  by (simp add: base_xpath_def)

text \<open>
  The name \<^verbatim>\<open>pandevice\<close> is not bound in the module, so the handler of
  \<open>check_device_up\<close> raises NameError whenever it is entered, and the loop body runs
  once.
\<close>

lemma pandevice_unbound: "load_global ''pandevice'' = Inl NameError"
  by (simp add: load_global_def module_globals_def)

lemma check_device_up_loop_once:
  "check_device_up_loop dev paloalto tr =
     Some (case get_fw_connection dev paloalto tr of
             (Inl e, tr1) \<Rightarrow> (Inl NameError, tr1)
           | (Inr fw, tr1) \<Rightarrow> (Inr fw, tr1))"
  by (subst check_device_up_loop.simps) (simp add: pandevice_unbound split: prod.splits sum.splits)

lemma check_device_up_failure:
  "get_fw_connection dev paloalto (tr @ [Sleep 60]) = (Inl e, tr1) \<Longrightarrow>
   check_device_up dev paloalto tr = Some (Inl NameError, tr1)"
  by (simp add: check_device_up_def check_device_up_loop_once)

lemma check_device_up_success:
  "get_fw_connection dev paloalto (tr @ [Sleep 60]) = (Inr fw, tr1) \<Longrightarrow>
   check_device_up dev paloalto tr = Some (Inr fw, tr1)"
  by (simp add: check_device_up_def check_device_up_loop_once)

lemma restart_system_trace:
  "restart_system dev fw tr =
     (fst (restart_system dev fw tr), tr @ [Op fw restart_system_command False])"
  by (simp add: restart_system_def split: sum.splits)

section \<open>Calls stop at the first raise\<close>

lemma stops_nil: "stops_at_raise dev tr [] r"
  by (simp add: stops_at_raise_def)

lemma stops_single:
  "(\<And>e. raised_at dev tr c = Some e \<Longrightarrow> \<exists>x. r = Inl x \<and> surfaces c e x) \<Longrightarrow>
   stops_at_raise dev tr [c] r"
  by (auto simp: stops_at_raise_def Cons_eq_append_conv)

lemma stops_seq:
  assumes 1: "stops_at_raise dev tr ext1 (Inr a)"
    and 2: "stops_at_raise dev (tr @ ext1) ext2 r"
  shows "stops_at_raise dev tr (ext1 @ ext2) r"
  unfolding stops_at_raise_def
proof (intro allI impI)
  fix before c after e
  assume eq: "ext1 @ ext2 = before @ c # after"
    and ra: "raised_at dev (tr @ before) c = Some e"
  from eq consider (left) q where "ext1 = before @ c # q" "after = q @ ext2"
    | (right) q where "before = ext1 @ q" "ext2 = q @ c # after"
    by (auto simp: append_eq_append_conv2 Cons_eq_append_conv append_eq_Cons_conv)
  then show "after = [] \<and> (\<exists>x. r = Inl x \<and> surfaces c e x)"
  proof cases
    case left
    with 1 ra show ?thesis by (auto simp: stops_at_raise_def)
  next
    case right
    with 2 ra show ?thesis by (auto simp: stops_at_raise_def)
  qed
qed

lemma stops_cast:
  "stops_at_raise dev tr ext (Inl x :: exn + 'a) \<Longrightarrow> stops_at_raise dev tr ext (Inl x :: exn + 'b)"
  by (simp add: stops_at_raise_def)

lemma runs_refl: "runs dev Q tr r tr"
  by (simp add: runs_def stops_nil)

lemma runs_seq:
  "runs dev Q tr (Inr a) tr1 \<Longrightarrow> runs dev Q tr1 r tr2 \<Longrightarrow> runs dev Q tr r tr2"
  by (auto simp: runs_def intro: stops_seq)

lemma runs_cast:
  "runs dev Q tr (Inl x :: exn + 'a) tr' \<Longrightarrow> runs dev Q tr (Inl x :: exn + 'b) tr'"
  by (auto simp: runs_def intro: stops_cast)

lemma runs_value:
  "runs dev Q tr (Inr a :: exn + 'a) tr' \<Longrightarrow> runs dev Q tr (Inr b :: exn + 'b) tr'"
  by (auto simp: runs_def stops_at_raise_def)

lemma runs_weaken:
  "runs dev Q tr r tr' \<Longrightarrow> (\<And>c. Q c \<Longrightarrow> Q' c) \<Longrightarrow> runs dev Q' tr r tr'"
  by (auto simp: runs_def)

lemma runs_single:
  "(\<And>e. raised_at dev tr c = Some e \<Longrightarrow> \<exists>x. r = Inl x \<and> surfaces c e x) \<Longrightarrow> Q c \<Longrightarrow>
   runs dev Q tr r (tr @ [c])"
  by (auto simp: runs_def intro: stops_single)

lemma get_fw_connection_runs:
  "get_fw_connection dev paloalto tr = (r, tr') \<Longrightarrow> runs dev is_connection_attempt tr r tr'"
  by (auto simp: get_fw_connection_def raised_at_def surfaces_def is_connection_attempt_def
      runs_refl split: option.splits sum.splits intro!: runs_single)

lemma check_ciphers_runs:
  "check_ciphers dev fw service tr = (r, tr') \<Longrightarrow>
   runs dev (\<lambda>c. \<not> is_system_restart c \<and> \<not> is_config_write c) tr r tr'"
  by (auto simp: check_ciphers_def raised_at_def surfaces_def is_system_restart_def
      is_config_write_def split: sum.splits intro!: runs_single)

lemma commit_config_runs:
  "commit_config dev fw tr = (r, tr') \<Longrightarrow>
   runs dev (\<lambda>c. \<not> is_system_restart c \<and> \<not> is_config_write c) tr r tr'"
  by (auto simp: commit_config_def raised_at_def surfaces_def is_system_restart_def
      is_config_write_def split: sum.splits intro!: runs_single)

lemma restart_service_runs:
  "restart_service dev fw service tr = (r, tr') \<Longrightarrow>
   runs dev (\<lambda>c. \<not> is_system_restart c \<and> \<not> is_config_write c) tr r tr'"
  by (auto simp: restart_service_def raised_at_def surfaces_def is_system_restart_def
      is_config_write_def service_restart_not_system split: sum.splits option.splits
      intro!: runs_single)


lemma set_ciphers_runs:
  "set_ciphers dev fw service D tr = (r, tr') \<Longrightarrow> runs dev (\<lambda>c. \<not> is_system_restart c) tr r tr'"
proof (induction D arbitrary: tr)
  case Nil
  then show ?case by (simp add: runs_refl)
next
  case (Cons cipher D)
  let ?c = "XapiSet fw (base_xpath service) (entry_element cipher)"
  show ?case
  proof (cases "xapi_set dev tr fw (base_xpath service) (entry_element cipher)")
    case (Inl e)
    with Cons.prems show ?thesis
      by (auto simp: raised_at_def surfaces_def is_system_restart_def intro!: runs_single)
  next
    case (Inr results)
    have "runs dev (\<lambda>c. \<not> is_system_restart c) tr (Inr ()) (tr @ [?c])"
      using Inr by (auto simp: raised_at_def is_system_restart_def intro!: runs_single)
    moreover have "runs dev (\<lambda>c. \<not> is_system_restart c) (tr @ [?c]) r tr'"
      using Cons.prems Inr by (auto intro: Cons.IH)
    ultimately show ?thesis by (rule runs_seq)
  qed
qed

lemma connection_runs_NameError:
  assumes "runs dev is_connection_attempt tr (Inl e :: exn + 'a) tr'"
  shows "runs dev is_connection_attempt tr (Inl NameError :: exn + 'b) tr'"
proof -
  from assms obtain ext where ext: "tr' = tr @ ext" "\<forall>c\<in>set ext. is_connection_attempt c"
    and st: "stops_at_raise dev tr ext (Inl e :: exn + 'a)"
    by (auto simp: runs_def)
  have "stops_at_raise dev tr ext (Inl NameError :: exn + 'b)"
    unfolding stops_at_raise_def
  proof (intro allI impI)
    fix before c after x
    assume eq: "ext = before @ c # after" and ra: "raised_at dev (tr @ before) c = Some x"
    with st have "after = []" by (auto simp: stops_at_raise_def)
    moreover from eq ext have "is_connection_attempt c" by simp
    then have "surfaces c x NameError"
      by (simp add: surfaces_def is_connection_attempt_def split: call.splits)
    ultimately show "after = [] \<and> (\<exists>y. (Inl NameError :: exn + 'b) = Inl y \<and> surfaces c x y)"
      by simp
  qed
  with ext show ?thesis by (auto simp: runs_def)
qed

lemma check_device_up_runs:
  assumes "check_device_up dev paloalto tr = Some (r, tr')"
  shows "runs dev (\<lambda>c. \<not> is_system_restart c \<and> \<not> is_config_write c) tr r tr'"
proof -
  let ?Q = "\<lambda>c::'a call. \<not> is_system_restart c \<and> \<not> is_config_write c"
  obtain r0 tr0 where conn: "get_fw_connection dev paloalto (tr @ [Sleep 60]) = (r0, tr0)"
    by (cases "get_fw_connection dev paloalto (tr @ [Sleep 60])")
  have sleep: "runs dev ?Q tr (Inr ()) (tr @ [Sleep 60])"
    by (auto simp: raised_at_def is_system_restart_def is_config_write_def intro!: runs_single)
  from assms conn have tr': "tr' = tr0"
    and r: "r = (case r0 of Inl e \<Rightarrow> Inl NameError | Inr fw \<Rightarrow> Inr fw)"
    by (auto simp: check_device_up_def check_device_up_loop_once split: sum.splits)
  have "runs dev is_connection_attempt (tr @ [Sleep 60]) r tr0"
    using get_fw_connection_runs [OF conn] r
    by (cases r0) (auto intro: connection_runs_NameError)
  then have "runs dev ?Q (tr @ [Sleep 60]) r tr0"
    by (rule runs_weaken)
      (auto simp: is_connection_attempt_def is_system_restart_def is_config_write_def
        split: call.splits)
  with sleep tr' show ?thesis by (auto intro: runs_seq)
qed

lemma remediate_after_writes:
  assumes w: "set_ciphers dev fw service D tr = (Inr u, tr1)"
    and "remediate dev paloalto fw service D tr = Some (r, tr')"
  shows "runs dev (\<lambda>c. \<not> is_system_restart c \<and> \<not> is_config_write c) tr1 r tr'"
proof -
  let ?Q = "\<lambda>c::'a call. \<not> is_system_restart c \<and> \<not> is_config_write c"
  obtain r2 tr2 where s2: "commit_config dev fw tr1 = (r2, tr2)"
    by (cases "commit_config dev fw tr1")
  obtain r3 tr3 where s3: "restart_service dev fw service tr2 = (r3, tr3)"
    by (cases "restart_service dev fw service tr2")
  note q2 = commit_config_runs [OF s2]
  note q3 = restart_service_runs [OF s3]
  show ?thesis
  proof (cases r2)
    case (Inl e)
    with assms s2 q2 show ?thesis
      by (auto simp: remediate_def intro: runs_cast)
  next
    case b: (Inr u2)
    show ?thesis
    proof (cases r3)
      case (Inl e)
      with assms s2 s3 b q2 q3 show ?thesis
        by (auto simp: remediate_def intro: runs_cast runs_seq)
    next
      case c: (Inr u3)
      with assms s2 s3 b have "check_device_up dev paloalto tr3 = Some (r, tr')"
        by (simp add: remediate_def)
      from check_device_up_runs [OF this] q2 q3 b c show ?thesis
        by (auto intro: runs_seq)
    qed
  qed
qed

lemma remediate_runs:
  assumes "remediate dev paloalto fw service D tr = Some (r, tr')"
  shows "runs dev (\<lambda>c. \<not> is_system_restart c) tr r tr'"
proof -
  obtain r1 tr1 where s1: "set_ciphers dev fw service D tr = (r1, tr1)"
    by (cases "set_ciphers dev fw service D tr")
  note q1 = set_ciphers_runs [OF s1]
  show ?thesis
  proof (cases r1)
    case (Inl e)
    with assms s1 q1 show ?thesis
      by (auto simp: remediate_def intro: runs_cast)
  next
    case (Inr u)
    with s1 assms have "runs dev (\<lambda>c. \<not> is_system_restart c \<and> \<not> is_config_write c) tr1 r tr'"
      by (auto intro: remediate_after_writes)
    then have "runs dev (\<lambda>c. \<not> is_system_restart c) tr1 r tr'"
      by (rule runs_weaken) simp
    with q1 Inr show ?thesis by (auto intro: runs_seq)
  qed
qed

lemma process_service_runs:
  assumes "process_service dev paloalto D service rl fw tr = Some (r, tr')"
  shows "runs dev (\<lambda>c. \<not> is_system_restart c) tr r tr'"
proof -
  let ?Q = "\<lambda>c::'a call. \<not> is_system_restart c"
  obtain r1 tr1 where s1: "check_ciphers dev fw service tr = (r1, tr1)"
    by (cases "check_ciphers dev fw service tr")
  have q1: "runs dev ?Q tr r1 tr1"
    by (rule runs_weaken [OF check_ciphers_runs [OF s1]]) simp
  show ?thesis
  proof (cases r1)
    case (Inl e)
    with assms s1 q1 show ?thesis
      by (auto simp: process_service_def intro: runs_cast)
  next
    case a: (Inr C)
    show ?thesis
    proof (cases "set D \<subseteq> set C")
      case True
      with assms s1 a q1 show ?thesis
        by (auto simp: process_service_def compare_ciphers_eq intro: runs_value)
    next
      case False
      with assms s1 a obtain r2 where
        s2: "remediate dev paloalto fw service D tr1 = Some (r2, tr')"
        and r: "r = (case r2 of Inl e \<Rightarrow> Inl e | Inr fw' \<Rightarrow> Inr (rl @ [''ciphers_not_set''], fw'))"
        by (auto simp: process_service_def compare_ciphers_eq split: option.splits sum.splits)
      from remediate_runs [OF s2] have "runs dev ?Q tr1 r tr'"
        unfolding r by (cases r2) (auto simp: runs_def stops_at_raise_def)
      with q1 a show ?thesis by (auto intro: runs_seq)
    qed
  qed
qed

lemma service_loop_runs:
  "service_loop dev paloalto D services rl fw tr = Some (r, tr') \<Longrightarrow>
   runs dev (\<lambda>c. \<not> is_system_restart c) tr r tr'"
proof (induction services arbitrary: rl fw tr)
  case Nil
  then show ?case by (simp add: runs_refl)
next
  case (Cons service services)
  from Cons.prems obtain r1 tr1 where
    s1: "process_service dev paloalto D service rl fw tr = Some (r1, tr1)"
    by (auto split: option.splits)
  note q1 = process_service_runs [OF s1]
  show ?case
  proof (cases r1)
    case (Inl e)
    with Cons.prems s1 q1 show ?thesis by (auto intro: runs_cast)
  next
    case (Inr p)
    with Cons.prems s1 have "service_loop dev paloalto D services (fst p) (snd p) tr1 = Some (r, tr')"
      by (cases p) simp
    from Cons.IH [OF this] q1 Inr show ?thesis by (auto intro: runs_seq)
  qed
qed

lemma main_loop_runs:
  assumes "main_loop dev paloalto = Some (r, tr)"
  shows "runs dev (\<lambda>c. \<not> is_system_restart c) [] r tr"
proof -
  let ?Q = "\<lambda>c::'a call. \<not> is_system_restart c"
  obtain r0 tr0 where s0: "get_fw_connection dev paloalto [] = (r0, tr0)"
    by (cases "get_fw_connection dev paloalto []")
  have q0: "runs dev ?Q [] r0 tr0"
    by (rule runs_weaken [OF get_fw_connection_runs [OF s0]])
      (auto simp: is_connection_attempt_def is_system_restart_def split: call.splits)
  show ?thesis
  proof (cases r0)
    case (Inl e)
    with assms s0 q0 show ?thesis by (auto simp: main_loop_def intro: runs_cast)
  next
    case (Inr fw)
    with assms s0 have "service_loop dev paloalto cipher_list service_list [] fw tr0 = Some (r, tr)"
      by (simp add: main_loop_def)
    from service_loop_runs [OF this] q0 Inr show ?thesis by (auto intro: runs_seq)
  qed
qed

section \<open>Every run returns\<close>

lemma check_device_up_returns: "\<exists>y. check_device_up dev paloalto tr = Some y"
  by (simp add: check_device_up_def check_device_up_loop_once)

lemma remediate_returns: "\<exists>y. remediate dev paloalto fw service D tr = Some y"
  using check_device_up_returns [of dev paloalto]
  by (auto simp: remediate_def split: prod.splits sum.splits)

lemma process_service_returns: "\<exists>y. process_service dev paloalto D service rl fw tr = Some y"
proof -
  obtain r1 tr1 where s1: "check_ciphers dev fw service tr = (r1, tr1)"
    by (cases "check_ciphers dev fw service tr")
  obtain y where "remediate dev paloalto fw service D tr1 = Some y"
    using remediate_returns [of dev paloalto fw service D tr1] by blast
  with s1 show ?thesis
    by (cases y) (auto simp: process_service_def compare_ciphers_eq split: sum.splits)
qed

lemma service_loop_returns: "\<exists>y. service_loop dev paloalto D services rl fw tr = Some y"
proof (induction services arbitrary: rl fw tr)
  case Nil
  show ?case by simp
next
  case (Cons service services)
  obtain r1 tr1 where "process_service dev paloalto D service rl fw tr = Some (r1, tr1)"
    using process_service_returns by (metis surj_pair)
  with Cons.IH show ?case
    by (cases r1) (auto split: prod.splits)
qed

lemma main_loop_returns: "\<exists>y. main_loop dev paloalto = Some y"
  using service_loop_returns [of dev paloalto]
  by (auto simp: main_loop_def split: prod.splits sum.splits)

lemma main_returns: "\<exists>y. main dev paloalto = Some y"
  using main_loop_returns [of dev paloalto]
  by (auto simp: main_def Let_def split: prod.splits sum.splits)


section \<open>The recorded statuses and the end of the run\<close>

lemma process_service_results:
  "process_service dev paloalto D service rl fw tr = Some (Inr (rl', fw'), tr') \<Longrightarrow>
   \<exists>status. rl' = rl @ [status] \<and> (status = ''ciphers_set'' \<or> status = ''ciphers_not_set'')"
  by (auto simp: process_service_def compare_ciphers_eq
      split: prod.splits sum.splits option.splits if_splits)

lemma service_loop_results:
  "service_loop dev paloalto D services rl fw tr = Some (Inr (rl', fw'), tr') \<Longrightarrow>
   \<exists>statuses. rl' = rl @ statuses \<and> length statuses = length services \<and>
     set statuses \<subseteq> {''ciphers_set'', ''ciphers_not_set''}"
proof (induction services arbitrary: rl fw tr)
  case Nil
  then show ?case by simp
next
  case (Cons service services)
  from Cons.prems obtain rl1 fw1 tr1 where
    s1: "process_service dev paloalto D service rl fw tr = Some (Inr (rl1, fw1), tr1)"
    and s2: "service_loop dev paloalto D services rl1 fw1 tr1 = Some (Inr (rl', fw'), tr')"
    by (auto split: option.splits sum.splits prod.splits)
  from process_service_results [OF s1] obtain status where
    st: "rl1 = rl @ [status]" "status = ''ciphers_set'' \<or> status = ''ciphers_not_set''"
    by blast
  from Cons.IH [OF s2] obtain statuses where
    "rl' = rl1 @ statuses" "length statuses = length services"
    "set statuses \<subseteq> {''ciphers_set'', ''ciphers_not_set''}"
    by blast
  with st have "rl' = rl @ (status # statuses) \<and> length (status # statuses) = length (service # services)
     \<and> set (status # statuses) \<subseteq> {''ciphers_set'', ''ciphers_not_set''}"
    by auto
  then show ?case by blast
qed

lemma main_loop_results:
  assumes "main_loop dev paloalto = Some (Inr (rl, fw), tr)"
  shows "\<exists>s_mgmt s_ha. rl = [s_mgmt, s_ha] \<and>
           (s_mgmt = ''ciphers_set'' \<or> s_mgmt = ''ciphers_not_set'') \<and>
           (s_ha = ''ciphers_set'' \<or> s_ha = ''ciphers_not_set'')"
proof -
  from assms obtain fw0 tr0 where
    "service_loop dev paloalto cipher_list service_list [] fw0 tr0 = Some (Inr (rl, fw), tr)"
    by (auto simp: main_loop_def split: prod.splits sum.splits)
  from service_loop_results [OF this] obtain statuses where
    st: "rl = statuses" "length statuses = 2" "set statuses \<subseteq> {''ciphers_set'', ''ciphers_not_set''}"
    by (auto simp: service_list_def)
  then obtain a b where "statuses = [a, b]"
    by (auto simp: length_Suc_conv numeral_2_eq_2)
  with st show ?thesis by auto
qed

lemma main_after_loop:
  assumes "main_loop dev paloalto = Some (Inr (rl, fw), tr1)"
  shows "main dev paloalto =
           Some (if ''ciphers_not_set'' \<in> set rl then restart_system dev fw tr1 else (Inr (), tr1))"
  using assms by (simp add: main_def)

lemma main_loop_no_system_restart:
  assumes "main_loop dev paloalto = Some (r, tr)"
  shows "\<forall>c\<in>set tr. \<not> is_system_restart c"
  using main_loop_runs [OF assms] by (auto simp: runs_def)

lemma set_ciphers_accepted:
  "\<forall>k<length D. \<exists>results.
      xapi_set dev (tr @ map (add_cipher fw service) (take k D)) fw (base_xpath service)
        (entry_element (D ! k)) = Inr results \<Longrightarrow>
   set_ciphers dev fw service D tr = (Inr (), tr @ map (add_cipher fw service) D)"
proof (induction D arbitrary: tr)
  case Nil
  show ?case by simp
next
  case (Cons cipher D)
  from Cons.prems [rule_format, of 0] obtain results where
    hd: "xapi_set dev tr fw (base_xpath service) (entry_element cipher) = Inr results"
    by auto
  have "\<forall>k<length D. \<exists>results.
      xapi_set dev ((tr @ [add_cipher fw service cipher]) @ map (add_cipher fw service) (take k D))
        fw (base_xpath service) (entry_element (D ! k)) = Inr results"
  proof (intro allI impI)
    fix k assume "k < length D"
    with Cons.prems [rule_format, of "Suc k"] show "\<exists>results.
      xapi_set dev ((tr @ [add_cipher fw service cipher]) @ map (add_cipher fw service) (take k D))
        fw (base_xpath service) (entry_element (D ! k)) = Inr results"
      by simp
  qed
  from Cons.IH [OF this] hd show ?case
    by (simp add: add_cipher_def)
qed

section \<open>Runs of the example devices\<close>

lemma example_connection:
  "get_fw_connection dev example_paloalto tr =
     (Firewall_new dev tr ''192.0.2.1'' ''secret'', tr @ [Firewall ''192.0.2.1'' ''secret''])"
  by (simp add: get_fw_connection_def example_paloalto_def)

lemma tags_config_response:
  "map tag (findall_result_service service (config_response service ciphers)) = ciphers"
  by (simp add: config_response_def findall_result_service_def child_elements_def
      all_children_def comp_def)

lemma simple_device_mgmt:
  "check_ciphers (simple_device mgmt_ciphers ha_ciphers) fw ''mgmt'' tr =
     (Inr mgmt_ciphers, tr @ [XapiGet fw (base_xpath ''mgmt'')])"
  by (simp add: check_ciphers_read simple_device_def tags_config_response)

lemma simple_device_ha:
  "check_ciphers (simple_device mgmt_ciphers ha_ciphers) fw ''ha'' tr =
     (Inr ha_ciphers, tr @ [XapiGet fw (base_xpath ''ha'')])"
  by (simp add: check_ciphers_read simple_device_def tags_config_response base_xpath_inject)

lemma remediate_accepted:
  assumes "\<And>tr xpath element. xapi_set dev tr fw xpath element = Inr set_response"
    and "\<And>tr. \<exists>res. fw_commit dev tr fw True commit_command = Inr res"
    and "\<And>tr. fw_op dev tr fw (restart_service_command service) False = Inr restart_response"
    and "\<And>tr. Firewall_new dev tr ''192.0.2.1'' ''secret'' = Inr fw'"
  shows "remediate dev example_paloalto fw service D tr =
           Some (Inr fw', tr @ map (add_cipher fw service) D
             @ [Commit fw True commit_command, Op fw (restart_service_command service) False,
                Sleep 60, Firewall ''192.0.2.1'' ''secret''])"
proof -
  have 1: "set_ciphers dev fw service D tr = (Inr (), tr @ map (add_cipher fw service) D)"
    by (rule set_ciphers_accepted) (simp add: assms(1))
  have 2: "commit_config dev fw tr2 = (Inr (), tr2 @ [Commit fw True commit_command])" for tr2
    using assms(2) [of tr2] by (auto simp: commit_config_def)
  have 3: "restart_service dev fw service tr3 =
             (Inr (), tr3 @ [Op fw (restart_service_command service) False])" for tr3
    by (simp add: restart_service_def assms(3) restart_response_def find_result_member_def
        child_elements_def)
  have 4: "check_device_up dev example_paloalto tr4 =
             Some (Inr fw', tr4 @ [Sleep 60, Firewall ''192.0.2.1'' ''secret''])" for tr4
    by (rule check_device_up_success) (simp add: example_connection assms(4))
  show ?thesis
    by (simp add: remediate_def 1 2 3 4)
qed

lemma mgmt_remediation_loop:
  assumes "\<And>tr xpath element. xapi_set dev tr 0 xpath element = Inr set_response"
    and "\<And>tr. \<exists>res. fw_commit dev tr 0 True commit_command = Inr res"
    and "\<And>tr. fw_op dev tr 0 (restart_service_command ''mgmt'') False = Inr restart_response"
    and "\<And>tr. Firewall_new dev tr ''192.0.2.1'' ''secret'' = Inr 0"
    and "\<And>tr. xapi_get dev tr 0 (base_xpath ''mgmt'') = Inr (config_response ''mgmt'' [])"
    and "\<And>tr. xapi_get dev tr 0 (base_xpath ''ha'') = Inr (config_response ''ha'' cipher_list)"
  shows "main_loop dev example_paloalto =
           Some (Inr ([''ciphers_not_set'', ''ciphers_set''], 0), mgmt_remediation_trace)"
proof -
  have ne: "cipher_list \<noteq> []"
    by (simp add: cipher_list_def)
  have 1: "process_service dev example_paloalto cipher_list ''mgmt'' []
             0 [Firewall ''192.0.2.1'' ''secret''] =
           Some (Inr ([''ciphers_not_set''], 0),
             [Firewall ''192.0.2.1'' ''secret'', XapiGet 0 (base_xpath ''mgmt'')]
               @ map (add_cipher 0 ''mgmt'') cipher_list
               @ [Commit 0 True commit_command, Op 0 (restart_service_command ''mgmt'') False,
                  Sleep 60, Firewall ''192.0.2.1'' ''secret''])"
    by (simp add: process_service_def check_ciphers_read assms(5) tags_config_response
        compare_ciphers_eq ne remediate_accepted [OF assms(1-4)])
  have 2: "process_service dev example_paloalto cipher_list ''ha'' [''ciphers_not_set''] 0 tr =
           Some (Inr ([''ciphers_not_set'', ''ciphers_set''], 0),
             tr @ [XapiGet 0 (base_xpath ''ha'')])" for tr
    by (simp add: process_service_def check_ciphers_read assms(6) tags_config_response
        compare_ciphers_eq)
  show ?thesis
    by (simp add: main_loop_def example_connection assms(4) service_list_def 1 2
        mgmt_remediation_trace_def)
qed

lemma simple_device_loop:
  "main_loop (simple_device [] cipher_list) example_paloalto =
     Some (Inr ([''ciphers_not_set'', ''ciphers_set''], 0), mgmt_remediation_trace)"
  by (rule mgmt_remediation_loop) (simp_all add: simple_device_def base_xpath_inject)

lemma simple_device_run:
  "main (simple_device [] cipher_list) example_paloalto =
     Some (Inr (), mgmt_remediation_trace @ [Op 0 restart_system_command False])"
  by (simp add: main_def simple_device_loop restart_system_def) (simp add: simple_device_def)



lemma read_only_device_run:
  "main read_only_device example_paloalto =
     Some (Inl PanDeviceError,
       [Firewall ''192.0.2.1'' ''secret'', XapiGet 0 (base_xpath ''mgmt''),
        add_cipher 0 ''mgmt'' ''aes128-cbc''])"
proof -
  have g: "xapi_get read_only_device tr 0 (base_xpath ''mgmt'') = Inr (config_response ''mgmt'' [])" for tr
    by (simp add: read_only_device_def simple_device_def)
  have ne: "cipher_list \<noteq> []"
    by (simp add: cipher_list_def)
  have w: "set_ciphers read_only_device 0 ''mgmt'' cipher_list tr =
             (Inl PanDeviceError, tr @ [add_cipher 0 ''mgmt'' ''aes128-cbc''])" for tr
    by (simp add: cipher_list_def read_only_device_def simple_device_def add_cipher_def)
  have "process_service read_only_device example_paloalto cipher_list ''mgmt'' [] 0
          [Firewall ''192.0.2.1'' ''secret''] =
        Some (Inl PanDeviceError,
          [Firewall ''192.0.2.1'' ''secret'', XapiGet 0 (base_xpath ''mgmt''),
           add_cipher 0 ''mgmt'' ''aes128-cbc''])"
    by (simp add: process_service_def check_ciphers_read g tags_config_response
        compare_ciphers_eq ne remediate_def w)
  moreover have "Firewall_new read_only_device [] ''192.0.2.1'' ''secret'' = Inr 0"
    by (simp add: read_only_device_def simple_device_def)
  ultimately show ?thesis
    by (simp add: main_def main_loop_def example_connection service_list_def)
qed

lemma compliant_device_loop:
  "main_loop (simple_device cipher_list cipher_list) example_paloalto =
     Some (Inr ([''ciphers_set'', ''ciphers_set''], 0),
       [Firewall ''192.0.2.1'' ''secret'', XapiGet 0 (base_xpath ''mgmt''),
        XapiGet 0 (base_xpath ''ha'')])"
proof -
  have "Firewall_new (simple_device cipher_list cipher_list) [] ''192.0.2.1'' ''secret'' = Inr 0"
    by (simp add: simple_device_def)
  then show ?thesis
    by (simp add: main_loop_def example_connection service_list_def process_service_def
        simple_device_mgmt simple_device_ha compare_ciphers_eq)
qed

section \<open>The comparator\<close>

text \<open>
  C1. For all lists \<open>D\<close> (desired) and \<open>C\<close> (configured), the status returned by
  \<open>compare_ciphers\<close> is \<^verbatim>\<open>'ciphers_set'\<close> exactly when every element of \<open>D\<close> is an
  element of \<open>C\<close>, and \<^verbatim>\<open>'ciphers_not_set'\<close> exactly when not.
\<close>

theorem compare_ciphers_status:
  "(snd (compare_ciphers D service C results_list) = ''ciphers_set'') = (set D \<subseteq> set C) \<and>
   (snd (compare_ciphers D service C results_list) = ''ciphers_not_set'') = (\<not> set D \<subseteq> set C)"
  by (simp add: compare_ciphers_def)

theorem compare_ciphers_status_witness:
  "snd (compare_ciphers [''a'', ''b''] ''mgmt'' [''a'', ''b'', ''c''] []) = ''ciphers_set'' \<and>
   snd (compare_ciphers [''a'', ''b''] ''mgmt'' [''a''] []) = ''ciphers_not_set''"
  using compare_ciphers_status [of "[''a'', ''b'']" "''mgmt''" "[''a'', ''b'', ''c'']" "[]"]
    compare_ciphers_status [of "[''a'', ''b'']" "''mgmt''" "[''a'']" "[]"]
  by simp



section \<open>The auditor\<close>

text \<open>
  C6, as stated, fails: the list returned by \<open>check_ciphers\<close> has one entry for each
  child element, so a response in which two children carry the same tag gives a list
  with a duplicate.
\<close>

theorem check_ciphers_duplicates:
  "fst (check_ciphers (simple_device [''aes128-cbc'', ''aes128-cbc''] []) 0 ''mgmt'' []) =
     Inr [''aes128-cbc'', ''aes128-cbc''] \<and>
   \<not> distinct [''aes128-cbc'', ''aes128-cbc'']"
  by (simp add: check_ciphers_read simple_device_def config_response_def
      findall_result_service_def child_elements_def all_children_def)

text \<open>
  C6, amended. When the read succeeds, \<open>check_ciphers\<close> returns the tags of the child
  elements of \<^verbatim>\<open>./result/<service>\<close> in document order; for every response in which
  these tags are pairwise different the returned list has no duplicates.
\<close>

theorem check_ciphers_distinct:
  assumes "xapi_get dev tr fw (base_xpath service) = Inr results"
    and "distinct (map tag (findall_result_service service results))"
  shows "\<exists>out. fst (check_ciphers dev fw service tr) = Inr out \<and> distinct out \<and>
           out = map tag (findall_result_service service results)"
  using assms by (simp add: check_ciphers_read)

theorem check_ciphers_distinct_witness:
  "\<exists>out. fst (check_ciphers (simple_device cipher_list []) 0 ''mgmt'' []) = Inr out \<and>
     distinct out \<and> out = cipher_list"
proof -
  let ?dev = "simple_device cipher_list []"
  have r: "xapi_get ?dev [] 0 (base_xpath ''mgmt'') = Inr (config_response ''mgmt'' cipher_list)"
    by (simp add: simple_device_def)
  have t: "map tag (findall_result_service ''mgmt'' (config_response ''mgmt'' cipher_list)) = cipher_list"
    by (simp add: config_response_def findall_result_service_def child_elements_def
        all_children_def comp_def)
  have d: "distinct cipher_list"
    by (simp add: cipher_list_def)
  from check_ciphers_distinct [OF r] t d show ?thesis by simp
qed

text \<open>
  C7, as stated, fails: a response without the \<^verbatim>\<open>./result/<service>\<close> subtree is
  answered with the empty list, a normal result.
\<close>

theorem check_ciphers_empty_response:
  "fst (check_ciphers empty_response_device 0 ''mgmt'' []) = Inr []"
  by (simp add: check_ciphers_read empty_response_device_def simple_device_def
      findall_result_service_def child_elements_def all_children_def)

text \<open>
  C7, amended. \<open>check_ciphers\<close> fails exactly when the configuration read raises, and
  then with the exception the read raised; whenever the read returns an element,
  \<open>check_ciphers\<close> returns normally the tags found under \<^verbatim>\<open>./result/<service>\<close>
  (none, when the structure lacks them).
\<close>

theorem check_ciphers_fails_iff_read_fails:
  "(\<forall>e. xapi_get dev tr fw (base_xpath service) = Inl e \<longrightarrow>
        fst (check_ciphers dev fw service tr) = Inl e) \<and>
   (\<forall>results. xapi_get dev tr fw (base_xpath service) = Inr results \<longrightarrow>
        fst (check_ciphers dev fw service tr) =
          Inr (map tag (findall_result_service service results)))"
  by (simp add: check_ciphers_read)

theorem check_ciphers_fails_iff_read_fails_witness:
  "fst (check_ciphers unreadable_device 0 ''mgmt'' []) = Inl PanDeviceError \<and>
   fst (check_ciphers (simple_device [''aes128-cbc''] []) 0 ''mgmt'' []) = Inr [''aes128-cbc'']"
proof -
  have 1: "xapi_get unreadable_device [] 0 (base_xpath ''mgmt'') = Inl PanDeviceError"
    by (simp add: unreadable_device_def simple_device_def)
  have 2: "xapi_get (simple_device [''aes128-cbc''] []) [] 0 (base_xpath ''mgmt'') =
             Inr (config_response ''mgmt'' [''aes128-cbc''])"
    by (simp add: simple_device_def)
  from check_ciphers_fails_iff_read_fails [of unreadable_device "[]" 0 "''mgmt''"] 1
  have "fst (check_ciphers unreadable_device 0 ''mgmt'' []) = Inl PanDeviceError"
    by blast
  moreover
  from check_ciphers_fails_iff_read_fails [of "simple_device [''aes128-cbc''] []" "[]" 0 "''mgmt''"] 2
  have "fst (check_ciphers (simple_device [''aes128-cbc''] []) 0 ''mgmt'' []) =
          Inr (map tag (findall_result_service ''mgmt'' (config_response ''mgmt'' [''aes128-cbc''])))"
    by blast
  ultimately show ?thesis by (simp add: tags_config_response)
qed

section \<open>The remediator\<close>

text \<open>
  C2, as stated, fails: the loop of \<open>set_ciphers\<close> has no handler, so a write that
  raises ends it. Against a device that rejects configuration writes the status of
  \<^verbatim>\<open>mgmt\<close> is \<^verbatim>\<open>'ciphers_not_set'\<close> and the run makes one add-cipher write, not eight.
\<close>

theorem set_ciphers_rejected_write:
  "fst (check_ciphers read_only_device 0 ''mgmt'' [Firewall ''192.0.2.1'' ''secret'']) = Inr [] \<and>
   snd (compare_ciphers cipher_list ''mgmt'' [] []) = ''ciphers_not_set'' \<and>
   set_ciphers read_only_device 0 ''mgmt'' cipher_list
     [Firewall ''192.0.2.1'' ''secret'', XapiGet 0 (base_xpath ''mgmt'')] =
     (Inl PanDeviceError,
      [Firewall ''192.0.2.1'' ''secret'', XapiGet 0 (base_xpath ''mgmt''),
       add_cipher 0 ''mgmt'' ''aes128-cbc'']) \<and>
   main read_only_device example_paloalto =
     Some (Inl PanDeviceError,
       [Firewall ''192.0.2.1'' ''secret'', XapiGet 0 (base_xpath ''mgmt''),
        add_cipher 0 ''mgmt'' ''aes128-cbc'']) \<and>
   length (filter is_config_write
     [Firewall ''192.0.2.1'' ''secret'', XapiGet 0 (base_xpath ''mgmt''),
      add_cipher (0::nat) ''mgmt'' ''aes128-cbc'']) = 1 \<and>
   length cipher_list = 8"
proof -
  have "check_ciphers read_only_device 0 ''mgmt'' [Firewall ''192.0.2.1'' ''secret''] =
          (Inr [], [Firewall ''192.0.2.1'' ''secret'', XapiGet 0 (base_xpath ''mgmt'')])"
    by (simp add: check_ciphers_read read_only_device_def simple_device_def
        tags_config_response)
  moreover have "snd (compare_ciphers cipher_list ''mgmt'' [] []) = ''ciphers_not_set''"
    by (simp add: compare_ciphers_def cipher_list_def)
  moreover have "set_ciphers read_only_device 0 ''mgmt'' cipher_list
     [Firewall ''192.0.2.1'' ''secret'', XapiGet 0 (base_xpath ''mgmt'')] =
     (Inl PanDeviceError,
      [Firewall ''192.0.2.1'' ''secret'', XapiGet 0 (base_xpath ''mgmt''),
       add_cipher 0 ''mgmt'' ''aes128-cbc''])"
    by (simp add: cipher_list_def read_only_device_def simple_device_def add_cipher_def)
  moreover have "length (filter is_config_write
     [Firewall ''192.0.2.1'' ''secret'', XapiGet 0 (base_xpath ''mgmt''),
      add_cipher (0::nat) ''mgmt'' ''aes128-cbc'']) = 1"
    by (simp add: is_config_write_def add_cipher_def)
  moreover have "length cipher_list = 8"
    by (simp add: cipher_list_def)
  ultimately show ?thesis
    by (simp add: read_only_device_run)
qed

text \<open>
  C2, amended. For a service whose audit returned \<open>C\<close> and whose status is
  \<^verbatim>\<open>'ciphers_not_set'\<close>, when every add-cipher write returns (none raises),
  \<open>set_ciphers\<close> returns normally after exactly one add-cipher write for each cipher
  of \<open>D\<close>, in order, whatever \<open>C\<close> holds, also for the ciphers that are in \<open>C\<close>;
  the round of the loop for that service makes these configuration writes and no
  other, so their number is the length of \<open>D\<close>.
\<close>

theorem set_ciphers_one_write_per_cipher:
  assumes audit: "check_ciphers dev fw service tr = (Inr C, tr1)"
    and needed: "snd (compare_ciphers D service C results_list) = ''ciphers_not_set''"
    and accepted: "\<forall>k<length D. \<exists>results.
      xapi_set dev (tr1 @ map (add_cipher fw service) (take k D)) fw (base_xpath service)
        (entry_element (D ! k)) = Inr results"
  shows "set_ciphers dev fw service D tr1 = (Inr (), tr1 @ map (add_cipher fw service) D) \<and>
         (\<exists>r rest. process_service dev paloalto D service results_list fw tr =
                      Some (r, tr1 @ map (add_cipher fw service) D @ rest) \<and>
                    (\<forall>c\<in>set rest. \<not> is_config_write c) \<and>
                    length (filter is_config_write (map (add_cipher fw service) D @ rest)) =
                      length D)"
proof -
  note w = set_ciphers_accepted [OF accepted]
  obtain y where rem: "remediate dev paloalto fw service D tr1 = Some y"
    using remediate_returns [of dev paloalto fw service D tr1] by blast
  obtain r2 tr2 where y: "y = (r2, tr2)" by (cases y)
  from remediate_after_writes [OF w rem [unfolded y]] obtain rest where
    rest: "tr2 = (tr1 @ map (add_cipher fw service) D) @ rest" "\<forall>c\<in>set rest. \<not> is_config_write c"
    by (auto simp: runs_def)
  from needed have ns: "\<not> set D \<subseteq> set C"
    by (simp add: compare_ciphers_eq split: if_splits)
  have "\<exists>r. process_service dev paloalto D service results_list fw tr = Some (r, tr2)"
    using audit ns rem y
    by (cases r2) (simp_all add: process_service_def compare_ciphers_eq)
  moreover have "filter is_config_write (map (add_cipher fw service) D) =
      map (add_cipher fw service) D"
    by (simp add: filter_id_conv is_config_write_def add_cipher_def)
  moreover from rest(2) have "filter is_config_write rest = []"
    by (simp add: filter_empty_conv)
  ultimately show ?thesis
    using rest w by auto
qed

text \<open>
  A device that already has six of the eight ciphers for \<^verbatim>\<open>mgmt\<close>: all eight are
  written, and the round for \<^verbatim>\<open>mgmt\<close> makes eight configuration writes.
\<close>

theorem set_ciphers_one_write_per_cipher_witness:
  "set_ciphers (simple_device (take 6 cipher_list) cipher_list) 0 ''mgmt'' cipher_list
     [XapiGet 0 (base_xpath ''mgmt'')] =
     (Inr (), XapiGet 0 (base_xpath ''mgmt'') # map (add_cipher 0 ''mgmt'') cipher_list) \<and>
   (\<exists>r rest. process_service (simple_device (take 6 cipher_list) cipher_list) example_paloalto
        cipher_list ''mgmt'' [] 0 [] =
        Some (r, XapiGet 0 (base_xpath ''mgmt'') # map (add_cipher 0 ''mgmt'') cipher_list @ rest) \<and>
      length (filter is_config_write (map (add_cipher 0 ''mgmt'') cipher_list @ rest)) = 8)"
proof -
  let ?dev = "simple_device (take 6 cipher_list) cipher_list"
  have audit: "check_ciphers ?dev 0 ''mgmt'' [] = (Inr (take 6 cipher_list), [XapiGet 0 (base_xpath ''mgmt'')])"
    by (simp add: simple_device_mgmt)
  have needed: "snd (compare_ciphers cipher_list ''mgmt'' (take 6 cipher_list) []) = ''ciphers_not_set''"
    by (simp add: compare_ciphers_def cipher_list_def)
  have accepted: "\<forall>k<length cipher_list. \<exists>results.
      xapi_set ?dev ([XapiGet 0 (base_xpath ''mgmt'')] @ map (add_cipher 0 ''mgmt'') (take k cipher_list))
        0 (base_xpath ''mgmt'') (entry_element (cipher_list ! k)) = Inr results"
    by (simp add: simple_device_def)
  have eight: "length cipher_list = 8"
    by (simp add: cipher_list_def)
  from set_ciphers_one_write_per_cipher [OF audit needed accepted, of example_paloalto] eight
  show ?thesis by auto
qed

text \<open>
  C5. The poll does not survive a refused connection: against a device that refuses
  one connection and would accept the next (after the second sleep),
  \<open>check_device_up\<close> makes a single connection attempt and ends with NameError instead
  of sleeping and trying again.
\<close>

theorem check_device_up_one_failure:
  "check_device_up (recovering_device 1) example_paloalto [] =
     Some (Inl NameError, [Sleep 60, Firewall ''192.0.2.1'' ''secret'']) \<and>
   Firewall_new (recovering_device 1)
     [Sleep 60, Firewall ''192.0.2.1'' ''secret'', Sleep 60] ''192.0.2.1'' ''secret'' = Inr 0"
proof -
  have "get_fw_connection (recovering_device 1) example_paloalto ([] @ [Sleep 60]) =
          (Inl PanURLError, [Sleep 60, Firewall ''192.0.2.1'' ''secret''])"
    by (simp add: example_connection recovering_device_def is_connection_attempt_def)
  then have "check_device_up (recovering_device 1) example_paloalto [] =
     Some (Inl NameError, [Sleep 60, Firewall ''192.0.2.1'' ''secret''])"
    by (rule check_device_up_failure)
  moreover have "Firewall_new (recovering_device 1)
     [Sleep 60, Firewall ''192.0.2.1'' ''secret'', Sleep 60] ''192.0.2.1'' ''secret'' = Inr 0"
    by (simp add: recovering_device_def is_connection_attempt_def)
  ultimately show ?thesis by simp
qed

section \<open>The whole run\<close>

text \<open>
  C4. When the connection is made and both configuration reads return all the ciphers
  of \<open>cipher_list\<close>, the run ends normally after the connection and the two reads: no
  configuration write, no commit, no service restart, no system restart.
\<close>

theorem compliant_run_is_read_only:
  assumes key: "paloalto ''key'' = Some key"
    and fw_ip: "paloalto ''firewall_ip'' = Some fw_ip"
    and conn: "Firewall_new dev [] fw_ip key = Inr fw"
    and mgmt: "xapi_get dev [Firewall fw_ip key] fw (base_xpath ''mgmt'') = Inr mgmt_config"
    and mgmt_all: "set cipher_list \<subseteq> set (map tag (findall_result_service ''mgmt'' mgmt_config))"
    and ha: "xapi_get dev [Firewall fw_ip key, XapiGet fw (base_xpath ''mgmt'')] fw
               (base_xpath ''ha'') = Inr ha_config"
    and ha_all: "set cipher_list \<subseteq> set (map tag (findall_result_service ''ha'' ha_config))"
  shows "\<exists>tr. main dev paloalto = Some (Inr (), tr) \<and>
           tr = [Firewall fw_ip key, XapiGet fw (base_xpath ''mgmt''),
                 XapiGet fw (base_xpath ''ha'')] \<and>
           (\<forall>c\<in>set tr. \<not> is_config_write c \<and> \<not> is_commit c \<and> \<not> is_service_restart c \<and>
                         \<not> is_system_restart c)"
proof -
  let ?tr0 = "[Firewall fw_ip key]"
  have 0: "get_fw_connection dev paloalto [] = (Inr fw, ?tr0)"
    using key fw_ip conn by (simp add: get_fw_connection_def)
  have 1: "process_service dev paloalto cipher_list ''mgmt'' [] fw ?tr0 =
             Some (Inr ([''ciphers_set''], fw), [Firewall fw_ip key, XapiGet fw (base_xpath ''mgmt'')])"
    using mgmt mgmt_all by (simp add: process_service_def check_ciphers_read compare_ciphers_eq)
  have 2: "process_service dev paloalto cipher_list ''ha'' [''ciphers_set''] fw
             [Firewall fw_ip key, XapiGet fw (base_xpath ''mgmt'')] =
             Some (Inr ([''ciphers_set'', ''ciphers_set''], fw),
                   [Firewall fw_ip key, XapiGet fw (base_xpath ''mgmt''),
                    XapiGet fw (base_xpath ''ha'')])"
    using ha ha_all by (simp add: process_service_def check_ciphers_read compare_ciphers_eq)
  have "main_loop dev paloalto =
          Some (Inr ([''ciphers_set'', ''ciphers_set''], fw),
                [Firewall fw_ip key, XapiGet fw (base_xpath ''mgmt''),
                 XapiGet fw (base_xpath ''ha'')])"
    using 0 1 2 by (simp add: main_loop_def service_list_def)
  then have "main dev paloalto =
          Some (Inr (), [Firewall fw_ip key, XapiGet fw (base_xpath ''mgmt''),
                 XapiGet fw (base_xpath ''ha'')])"
    by (simp add: main_def)
  then show ?thesis
    by (simp add: is_config_write_def is_commit_def is_service_restart_def is_system_restart_def)
qed

theorem compliant_run_is_read_only_witness:
  "main (simple_device cipher_list cipher_list) example_paloalto =
     Some (Inr (), [Firewall ''192.0.2.1'' ''secret'', XapiGet 0 (base_xpath ''mgmt''),
                    XapiGet 0 (base_xpath ''ha'')])"
proof -
  let ?dev = "simple_device cipher_list cipher_list"
  have key: "example_paloalto ''key'' = Some ''secret''"
    and fw_ip: "example_paloalto ''firewall_ip'' = Some ''192.0.2.1''"
    by (simp_all add: example_paloalto_def)
  have conn: "Firewall_new ?dev [] ''192.0.2.1'' ''secret'' = Inr 0"
    by (simp add: simple_device_def)
  have mgmt: "xapi_get ?dev [Firewall ''192.0.2.1'' ''secret''] 0 (base_xpath ''mgmt'') =
                Inr (config_response ''mgmt'' cipher_list)"
    by (simp add: simple_device_def)
  have ha: "xapi_get ?dev [Firewall ''192.0.2.1'' ''secret'', XapiGet 0 (base_xpath ''mgmt'')] 0
                (base_xpath ''ha'') = Inr (config_response ''ha'' cipher_list)"
    by (simp add: simple_device_def base_xpath_inject)
  have all: "set cipher_list \<subseteq> set (map tag (findall_result_service s (config_response s cipher_list)))" for s
    by (simp add: tags_config_response)
  from compliant_run_is_read_only [OF key fw_ip conn mgmt all ha all]
  show ?thesis by simp
qed

text \<open>
  C3. When the loop has gone through both services, the run issues the system restart
  exactly when at least one of the two recorded statuses is \<^verbatim>\<open>'ciphers_not_set'\<close>.
\<close>

theorem system_restart_iff_not_set:
  assumes "main_loop dev paloalto = Some (Inr (results_list, fw), tr1)"
  shows "\<exists>s_mgmt s_ha r tr. results_list = [s_mgmt, s_ha] \<and> main dev paloalto = Some (r, tr) \<and>
           ((\<exists>c\<in>set tr. is_system_restart c) =
              (s_mgmt = ''ciphers_not_set'' \<or> s_ha = ''ciphers_not_set''))"
proof -
  from main_loop_results [OF assms] obtain s_mgmt s_ha where rl: "results_list = [s_mgmt, s_ha]"
    by blast
  note quiet = main_loop_no_system_restart [OF assms]
  show ?thesis
  proof (cases "''ciphers_not_set'' \<in> set results_list")
    case True
    with main_after_loop [OF assms] restart_system_trace [of dev fw tr1]
    have "main dev paloalto =
            Some (fst (restart_system dev fw tr1), tr1 @ [Op fw restart_system_command False])"
      by simp
    moreover have "is_system_restart (Op fw restart_system_command False)"
      by (simp add: is_system_restart_def)
    ultimately show ?thesis using True rl by fastforce
  next
    case False
    with main_after_loop [OF assms] have "main dev paloalto = Some (Inr (), tr1)"
      by simp
    with False rl quiet show ?thesis by auto
  qed
qed

text \<open>
  One run that restarts the system (nothing configured for \<^verbatim>\<open>mgmt\<close>) and one that
  does not (everything configured).
\<close>

theorem system_restart_iff_not_set_witness:
  "(\<exists>r tr. main (simple_device [] cipher_list) example_paloalto = Some (r, tr) \<and>
      (\<exists>c\<in>set tr. is_system_restart c)) \<and>
   (\<exists>r tr. main (simple_device cipher_list cipher_list) example_paloalto = Some (r, tr) \<and>
      \<not> (\<exists>c\<in>set tr. is_system_restart c))"
proof -
  from system_restart_iff_not_set [OF compliant_device_loop]
    system_restart_iff_not_set [OF simple_device_loop]
  show ?thesis by auto
qed

text \<open>
  C9. In every run the system restart is issued at most once, as the last call, and
  only when the loop has returned normally with a status recorded for each of the two
  services.
\<close>

theorem system_restart_at_most_once:
  assumes "main dev paloalto = Some (r, tr)"
  shows "length (filter is_system_restart tr) \<le> 1 \<and>
         (\<forall>before c after. tr = before @ c # after \<and> is_system_restart c \<longrightarrow>
            after = [] \<and>
            (\<exists>s_mgmt s_ha fw. main_loop dev paloalto = Some (Inr ([s_mgmt, s_ha], fw), before)))"
proof -
  obtain r1 tr1 where ml: "main_loop dev paloalto = Some (r1, tr1)"
    using main_loop_returns by (metis surj_pair)
  note quiet = main_loop_no_system_restart [OF ml]
  then have none: "filter is_system_restart tr1 = []"
    by (simp add: filter_empty_conv)
  show ?thesis
  proof (cases "tr = tr1")
    case True
    with quiet none show ?thesis by auto
  next
    case False
    with assms ml obtain rl fw where r1: "r1 = Inr (rl, fw)"
      and rs: "restart_system dev fw tr1 = (r, tr)"
      by (auto simp: main_def Let_def split: sum.splits if_splits)
    from rs restart_system_trace [of dev fw tr1]
    have tr: "tr = tr1 @ [Op fw restart_system_command False]"
      by simp
    from main_loop_results [of dev paloalto rl fw tr1] ml r1 obtain s_mgmt s_ha where
      rl: "rl = [s_mgmt, s_ha]" by auto
    have "after = [] \<and> before = tr1"
      if "tr = before @ c # after" "is_system_restart c" for before c after
    proof -
      from that(1) tr consider (left) q where "tr1 = before @ c # q"
        | (right) "before = tr1" "after = []"
        by (auto simp: append_eq_append_conv2 Cons_eq_append_conv append_eq_Cons_conv)
      then show ?thesis
      proof cases
        case left
        with quiet that(2) show ?thesis by auto
      next
        case right
        then show ?thesis by simp
      qed
    qed
    moreover have "length (filter is_system_restart tr) \<le> 1"
      using tr none by simp
    ultimately show ?thesis using ml r1 rl by blast
  qed
qed

theorem system_restart_at_most_once_witness:
  "length (filter is_system_restart (mgmt_remediation_trace @ [Op 0 restart_system_command False])) \<le> 1 \<and>
   (\<exists>s_mgmt s_ha fw. main_loop (simple_device [] cipher_list) example_paloalto =
      Some (Inr ([s_mgmt, s_ha], fw), mgmt_remediation_trace))"
proof -
  have "is_system_restart (Op (0::nat) restart_system_command False)"
    by (simp add: is_system_restart_def)
  with system_restart_at_most_once [OF simple_device_run]
  show ?thesis by blast
qed



end
